theory Spec2Isabelle
  imports Complex_Main "HOL-Library.Sublist"
begin

section \<open>JavaScript values used by the program\<close>

text \<open>
  The program is a single TypeScript module, \<^verbatim>\<open>src/index.tsx\<close>. Its domain logic is the
  static method \<^verbatim>\<open>FitnessBusinessLogic.calcularImporte\<close>, the submit handler
  \<^verbatim>\<open>handleRegister\<close>, the memoised \<^verbatim>\<open>stats\<close>, the derived list
  \<^verbatim>\<open>filteredSocios\<close>, the inline removal handler of the member table and the effect
  that loads the saved members.

  Strings are lists of characters; a character stands for a UTF-16 code unit below 256
  (ASCII and Latin-1). Code units from 256 on are outside the model.

  The numbers that \<^verbatim>\<open>parseInt\<close> produces are integers or \<^verbatim>\<open>NaN\<close>: the type
  \<open>number\<close> below. It is the type of \<^verbatim>\<open>dni\<close> and \<^verbatim>\<open>edad\<close>. The integer is
  kept exact; JavaScript rounds integers beyond \<open>2^53\<close> to the nearest double and
  turns those beyond the double range into \<^verbatim>\<open>Infinity\<close>, which changes no comparison
  with the constants of this program.

  Amounts of money (\<^verbatim>\<open>precio\<close>, \<^verbatim>\<open>importe\<close>) are JavaScript doubles. They are
  idealised as real numbers with exact arithmetic: the rounding of IEEE-754 operations is
  outside the model. On the prices of the catalog the two agree: the doubles
  \<^verbatim>\<open>p * 0.8\<close>, \<^verbatim>\<open>p * 1.05\<close> and \<^verbatim>\<open>p * 0.8 * 1.05\<close> for \<open>p\<close> in 12000, 18000, 25000
  are the integers 9600, 14400, 20000, 12600, 18900, 26250, 10080, 15120, 21000, and sums
  of up to 390 such values are exact in a double.
\<close>

datatype number = NaN | Num int

text \<open>The relational operators \<^verbatim>\<open><\<close> and \<^verbatim>\<open>>\<close> on these numbers: every
  comparison with \<^verbatim>\<open>NaN\<close> is false.\<close>

fun lt :: "number \<Rightarrow> number \<Rightarrow> bool" where
  "lt (Num a) (Num b) = (a < b)"
| "lt _ _ = False"

fun gt :: "number \<Rightarrow> number \<Rightarrow> bool" where
  "gt (Num a) (Num b) = (a > b)"
| "gt _ _ = False"

section \<open>The catalog\<close>

record membresia_t =
  id_m :: string
  precio :: real
  nombre_m :: string

definition SEDES :: "string list" where
  "SEDES = [''CBA'', ''ROS'', ''MDP'', ''BUE'']"

text \<open>The display name of the first plan has an a with acute accent (code unit 225).\<close>

definition MEMBRESIAS :: "membresia_t list" where
  "MEMBRESIAS =
    [\<lparr>id_m = ''BAS'', precio = 12000, nombre_m = ''B'' @ [char_of (225::nat)] @ ''sica''\<rparr>,
     \<lparr>id_m = ''STD'', precio = 18000, nombre_m = ''Standard''\<rparr>,
     \<lparr>id_m = ''PRE'', precio = 25000, nombre_m = ''Premium''\<rparr>]"

definition MAX_SOCIOS :: nat where
  "MAX_SOCIOS = 390"

section \<open>The fee\<close>

text \<open>
  \<^verbatim>\<open>
  static calcularImporte(edad: number, membresiaId: string, metodoPago: string): number {
    const membresia = MEMBRESIAS.find(m => m.id === membresiaId);
    let costo = membresia ? membresia.precio : 0;
    if (edad < 18) costo *= 0.8;
    if (metodoPago === "tarjeta") costo *= 1.05;
    return costo;
  }
  \<close>
  The three statements that assign \<^verbatim>\<open>costo\<close> are the three bindings of the \<open>let\<close>.
\<close>

definition calcularImporte :: "number \<Rightarrow> string \<Rightarrow> string \<Rightarrow> real" where
  "calcularImporte edad membresiaId metodoPago =
    (let membresia = find (\<lambda>m. id_m m = membresiaId) MEMBRESIAS;
         costo = (case membresia of Some m \<Rightarrow> precio m | None \<Rightarrow> 0);
         costo = (if lt edad (Num 18) then costo * 0.8 else costo);
         costo = (if metodoPago = ''tarjeta'' then costo * 1.05 else costo)
     in costo)"

section \<open>Library functions of JavaScript\<close>

subsection \<open>\<^verbatim>\<open>parseInt\<close> with one argument\<close>

text \<open>
  \<^verbatim>\<open>parseInt(string)\<close> skips leading white space, reads an optional sign, takes radix 16
  after a prefix \<^verbatim>\<open>0x\<close> or \<^verbatim>\<open>0X\<close> and radix 10 otherwise, and reads the longest run
  of digits of that radix. With no digit the result is \<^verbatim>\<open>NaN\<close>; whatever follows the
  digits is ignored. The white space below 256 is TAB, LF, VT, FF, CR, SP and NBSP.
\<close>

definition isWhiteSpace :: "char \<Rightarrow> bool" where
  "isWhiteSpace c = ((of_char c :: nat) \<in> {9, 10, 11, 12, 13, 32, 160})"

definition digitOf :: "char \<Rightarrow> nat option" where
  "digitOf c =
    (let n = (of_char c :: nat) in
     if 48 \<le> n \<and> n \<le> 57 then Some (n - 48)
     else if 97 \<le> n \<and> n \<le> 122 then Some (n - 87)
     else if 65 \<le> n \<and> n \<le> 90 then Some (n - 55)
     else None)"

definition radixDigit :: "nat \<Rightarrow> char \<Rightarrow> nat option" where
  "radixDigit R c = (case digitOf c of Some d \<Rightarrow> if d < R then Some d else None | None \<Rightarrow> None)"

text \<open>The value of the longest run of radix-\<open>R\<close> digits at the start of a string.\<close>

fun digitsValue :: "nat \<Rightarrow> nat \<Rightarrow> string \<Rightarrow> nat" where
  "digitsValue R acc [] = acc"
| "digitsValue R acc (c # cs) =
    (case radixDigit R c of Some d \<Rightarrow> digitsValue R (acc * R + d) cs | None \<Rightarrow> acc)"

definition hasDigit :: "nat \<Rightarrow> string \<Rightarrow> bool" where
  "hasDigit R S = (case S of [] \<Rightarrow> False | c # _ \<Rightarrow> radixDigit R c \<noteq> None)"

definition parseInt :: "string \<Rightarrow> number" where
  "parseInt inputString =
    (let S = dropWhile isWhiteSpace inputString;
         sign = (case S of c # _ \<Rightarrow> if c = CHR ''-'' then (-1::int) else 1 | [] \<Rightarrow> 1);
         S = (case S of c # r \<Rightarrow> if c = CHR ''+'' \<or> c = CHR ''-'' then r else S | [] \<Rightarrow> S);
         hex = (take 2 S = ''0x'' \<or> take 2 S = ''0X'');
         R = (if hex then 16 else 10);
         S = (if hex then drop 2 S else S)
     in if hasDigit R S then Num (sign * int (digitsValue R 0 S)) else NaN)"

subsection \<open>\<^verbatim>\<open>Number.prototype.toString\<close> on the values of \<open>number\<close>\<close>

text \<open>
  The decimal form of an integer, which is what JavaScript prints for an integer of
  absolute value below \<open>10^21\<close>. \<open>isSafeInteger\<close> is \<^verbatim>\<open>Number.isSafeInteger\<close>: on
  safe integers the exact integer of the model is the JavaScript number itself.
\<close>

function digitsOf :: "nat \<Rightarrow> string" where
  "digitsOf n = (if n < 10 then [char_of (48 + n)] else digitsOf (n div 10) @ [char_of (48 + n mod 10)])"
  by pat_completeness auto
termination
  by (relation "measure (\<lambda>n. n)") auto

declare digitsOf.simps [simp del]

fun toString :: "number \<Rightarrow> string" where
  "toString NaN = ''NaN''"
| "toString (Num n) = (if n < 0 then CHR ''-'' # digitsOf (nat (- n)) else digitsOf (nat n))"

fun isSafeInteger :: "number \<Rightarrow> bool" where
  "isSafeInteger NaN = False"
| "isSafeInteger (Num n) = (\<bar>n\<bar> \<le> 2 ^ 53 - 1)"

subsection \<open>\<^verbatim>\<open>toLowerCase\<close> and \<^verbatim>\<open>includes\<close> on strings\<close>

text \<open>
  Below 256 the letters with a lower-case form are A to Z and the Latin-1 capitals 192 to
  222 without the multiplication sign 215; the lower-case form is 32 further on.
\<close>

definition lowerChar :: "char \<Rightarrow> char" where
  "lowerChar c =
    (let n = (of_char c :: nat) in
     if (65 \<le> n \<and> n \<le> 90) \<or> (192 \<le> n \<and> n \<le> 222 \<and> n \<noteq> 215) then char_of (n + 32) else c)"

definition toLowerCase :: "string \<Rightarrow> string" where
  "toLowerCase s = map lowerChar s"

fun startsWith :: "string \<Rightarrow> string \<Rightarrow> bool" where
  "startsWith s [] = True"
| "startsWith [] (q # qs) = False"
| "startsWith (c # cs) (q # qs) = (c = q \<and> startsWith cs qs)"

fun includes_str :: "string \<Rightarrow> string \<Rightarrow> bool" where
  "includes_str [] q = (q = [])"
| "includes_str (c # cs) q = (startsWith (c # cs) q \<or> includes_str cs q)"

section \<open>Members and the registry\<close>

text \<open>
  \<^verbatim>\<open>interface Socio\<close>. The registry is the state variable \<^verbatim>\<open>socios\<close>, a list of
  members with the newest first.
\<close>

record socio =
  id_s :: string
  nombre :: string
  dni :: number
  edad :: number
  sede :: string
  membresia :: string
  metodoPago :: string
  importe :: real

text \<open>The state variable \<^verbatim>\<open>formData\<close>: every field of the form is a string.\<close>

record formData =
  nombre_f :: string
  dni_f :: string
  edad_f :: string
  sede_f :: string
  membresia_f :: string
  metodoPago_f :: string

subsection \<open>Registration\<close>

text \<open>
  \<^verbatim>\<open>
  const handleRegister = (e: React.FormEvent) => {
    e.preventDefault();
    const dni = parseInt(formData.dni);
    const edad = parseInt(formData.edad);
    if (dni < 2000000 || dni > 59999999) return alert(<invalid DNI>);
    if (socios.length >= MAX_SOCIOS) return alert(<capacity exceeded>);
    const nuevo: Socio = { id: crypto.randomUUID(), nombre: formData.nombre, dni, edad,
      sede: formData.sede, membresia: formData.membresia, metodoPago: formData.metodoPago,
      importe: FitnessBusinessLogic.calcularImporte(edad, formData.membresia, formData.metodoPago) };
    setSocios([nuevo, ...socios]);
    setView('list');
    setFormData({ ... });
  };
  \<close>
  Each of the two alerts is a rejection: the handler returns after it and the registry
  is not touched. The identifier drawn by \<^verbatim>\<open>crypto.randomUUID()\<close> is an argument of
  the model. The handler reads the state variables \<^verbatim>\<open>formData\<close> and \<^verbatim>\<open>socios\<close>;
  of the state it writes, only \<^verbatim>\<open>socios\<close> is modelled (the view and the cleared form
  belong to the presentation).
\<close>

datatype rejection = InvalidNationalId | CapacityExceeded

definition handleRegister :: "string \<Rightarrow> formData \<Rightarrow> socio list \<Rightarrow> rejection + socio list" where
  "handleRegister uuid fd socios =
    (let dni = parseInt (dni_f fd);
         edad = parseInt (edad_f fd)
     in if lt dni (Num 2000000) \<or> gt dni (Num 59999999) then Inl InvalidNationalId
        else if length socios \<ge> MAX_SOCIOS then Inl CapacityExceeded
        else Inr (\<lparr>id_s = uuid, nombre = nombre_f fd, dni = dni, edad = edad,
                   sede = sede_f fd, membresia = membresia_f fd, metodoPago = metodoPago_f fd,
                   importe = calcularImporte edad (membresia_f fd) (metodoPago_f fd)\<rparr> # socios))"

text \<open>The registry once the handler has run.\<close>

definition sociosAfterRegister :: "string \<Rightarrow> formData \<Rightarrow> socio list \<Rightarrow> socio list" where
  "sociosAfterRegister uuid fd socios =
    (case handleRegister uuid fd socios of Inl _ \<Rightarrow> socios | Inr socios' \<Rightarrow> socios')"

subsection \<open>Removal\<close>

text \<open>
  The button of a row of the member table:
  \<^verbatim>\<open>onClick={() => setSocios(socios.filter(x => x.id !== s.id))}\<close>.
  The arrow function returns what \<^verbatim>\<open>setSocios\<close> returns, which is \<^verbatim>\<open>undefined\<close>; the
  model pairs that result with the new registry.
\<close>

datatype jsvalue = Undefined | Boolean bool

definition removeSocio :: "string \<Rightarrow> socio list \<Rightarrow> jsvalue \<times> socio list" where
  "removeSocio i socios = (Undefined, filter (\<lambda>x. id_s x \<noteq> i) socios)"

subsection \<open>Loading the saved members\<close>

text \<open>
  \<^verbatim>\<open>
  const saved = localStorage.getItem('fitness_plus_elite_v3');
  if (saved) setSocios(JSON.parse(saved));
  \<close>
  The argument is the parsed snapshot, \<open>None\<close> when nothing is stored.
\<close>

fun hydrate :: "socio list option \<Rightarrow> socio list \<Rightarrow> socio list" where
  "hydrate None socios = socios"
| "hydrate (Some saved) socios = saved"

subsection \<open>Sequences of operations\<close>

datatype operation = Hydrate "socio list option" | Register string formData | Remove string

fun step :: "socio list \<Rightarrow> operation \<Rightarrow> socio list" where
  "step socios (Hydrate saved) = hydrate saved socios"
| "step socios (Register uuid fd) = sociosAfterRegister uuid fd socios"
| "step socios (Remove i) = snd (removeSocio i socios)"

definition run :: "operation list \<Rightarrow> socio list \<Rightarrow> socio list" where
  "run ops socios = foldl step socios ops"

subsection \<open>The range of the national identity number\<close>

text \<open>
  The invariant that the specification asks of every stored member: the \<^verbatim>\<open>dni\<close> is a
  number from 2,000,000 to 59,999,999.
\<close>

fun inRange :: "number \<Rightarrow> bool" where
  "inRange NaN = False"
| "inRange (Num n) = (2000000 \<le> n \<and> n \<le> 59999999)"

text \<open>
  The operations whose input is within the invariant's reach: a load whose snapshot, if
  there is one, holds only members in range; a registration whose nationalId field holds
  a number; any removal.
\<close>

fun checkedInput :: "operation \<Rightarrow> bool" where
  "checkedInput (Hydrate None) = True"
| "checkedInput (Hydrate (Some saved)) = list_all (\<lambda>s. inRange (dni s)) saved"
| "checkedInput (Register uuid fd) = (parseInt (dni_f fd) \<noteq> NaN)"
| "checkedInput (Remove i) = True"

section \<open>Reports and search\<close>

text \<open>
  \<^verbatim>\<open>
  const totalRecaudado = socios.reduce((acc, s) => acc + s.importe, 0);
  const sedeBreakdown = SEDES.map(sede => {
    const sSede = socios.filter(s => s.sede === sede);
    return { name: sede, count: sSede.length,
             income: sSede.reduce((acc, s) => acc + s.importe, 0) };
  });
  const totalSocios = socios.length;
  return { totalRecaudado, totalSocios, sedeBreakdown };
  \<close>
\<close>

record sedeStat =
  name :: string
  count :: nat
  income :: real

record statsResult =
  totalRecaudado :: real
  totalSocios :: nat
  sedeBreakdown :: "sedeStat list"

definition stats :: "socio list \<Rightarrow> statsResult" where
  "stats socios =
    (let totalRecaudado = foldl (\<lambda>acc s. acc + importe s) 0 socios;
         sedeBreakdown = map (\<lambda>sede'.
            let sSede = filter (\<lambda>s. sede s = sede') socios
            in \<lparr>name = sede', count = length sSede,
                income = foldl (\<lambda>acc s. acc + importe s) 0 sSede\<rparr>) SEDES;
         totalSocios = length socios
     in \<lparr>totalRecaudado = totalRecaudado, totalSocios = totalSocios,
         sedeBreakdown = sedeBreakdown\<rparr>)"

text \<open>
  \<^verbatim>\<open>
  const filteredSocios = socios.filter(s =>
    s.nombre.toLowerCase().includes(searchQuery.toLowerCase()) ||
    s.dni.toString().includes(searchQuery));
  \<close>
\<close>

definition filteredSocios :: "socio list \<Rightarrow> string \<Rightarrow> socio list" where
  "filteredSocios socios searchQuery =
    filter (\<lambda>s. includes_str (toLowerCase (nombre s)) (toLowerCase searchQuery) \<or>
                includes_str (toString (dni s)) searchQuery) socios"

text \<open>
  The search as the specification words it, to compare with \<open>filteredSocios\<close>: a member
  matches when the query, letter case set aside, is a substring of the full name or of the
  decimal form of the national identity number. Substring is \<^const>\<open>sublist\<close>, a run of
  consecutive characters; two strings are equal with case set aside when their lower-case
  forms are equal.
\<close>

definition spec_caseInsensitiveSubstring :: "string \<Rightarrow> string \<Rightarrow> bool" where
  "spec_caseInsensitiveSubstring query text = sublist (toLowerCase query) (toLowerCase text)"

definition spec_matches :: "string \<Rightarrow> socio \<Rightarrow> bool" where
  "spec_matches query s =
    (spec_caseInsensitiveSubstring query (nombre s) \<or>
     spec_caseInsensitiveSubstring query (toString (dni s)))"

text \<open>The characters of the decimal form of an integer: the minus sign and the ten digits.\<close>

definition plainChar :: "char \<Rightarrow> bool" where
  "plainChar c = ((of_char c :: nat) = 45 \<or> (48 \<le> (of_char c :: nat) \<and> (of_char c :: nat) \<le> 57))"

section \<open>Evaluation of the model\<close>

text \<open>The handler as one conditional, and the library functions on the strings used below.\<close>

lemma handleRegister_cases:
  "handleRegister u fd socios =
    (if lt (parseInt (dni_f fd)) (Num 2000000) \<or> gt (parseInt (dni_f fd)) (Num 59999999)
     then Inl InvalidNationalId
     else if MAX_SOCIOS \<le> length socios then Inl CapacityExceeded
     else Inr (\<lparr>id_s = u, nombre = nombre_f fd, dni = parseInt (dni_f fd),
                 edad = parseInt (edad_f fd), sede = sede_f fd, membresia = membresia_f fd,
                 metodoPago = metodoPago_f fd,
                 importe = calcularImporte (parseInt (edad_f fd)) (membresia_f fd) (metodoPago_f fd)\<rparr>
               # socios))"
  by (simp add: handleRegister_def Let_def)

lemma parseInt_30000000: "parseInt ''30000000'' = Num 30000000"
  by (simp add: parseInt_def isWhiteSpace_def hasDigit_def radixDigit_def digitOf_def)

lemma parseInt_17: "parseInt ''17'' = Num 17"
  by (simp add: parseInt_def isWhiteSpace_def hasDigit_def radixDigit_def digitOf_def)

lemma parseInt_1999999: "parseInt ''1999999'' = Num 1999999"
  by (simp add: parseInt_def isWhiteSpace_def hasDigit_def radixDigit_def digitOf_def)

lemma parseInt_2000000: "parseInt ''2000000'' = Num 2000000"
  by (simp add: parseInt_def isWhiteSpace_def hasDigit_def radixDigit_def digitOf_def)

lemma parseInt_59999999: "parseInt ''59999999'' = Num 59999999"
  by (simp add: parseInt_def isWhiteSpace_def hasDigit_def radixDigit_def digitOf_def)

lemma parseInt_60000000: "parseInt ''60000000'' = Num 60000000"
  by (simp add: parseInt_def isWhiteSpace_def hasDigit_def radixDigit_def digitOf_def)

lemma parseInt_25: "parseInt ''25'' = Num 25"
  by (simp add: parseInt_def isWhiteSpace_def hasDigit_def radixDigit_def digitOf_def)

lemma digitsOf_small: "n < 10 \<Longrightarrow> digitsOf n = [char_of (48 + n)]"
  by (subst digitsOf.simps) simp

lemma digitsOf_large: "10 \<le> n \<Longrightarrow> digitsOf n = digitsOf (n div 10) @ [char_of (48 + n mod 10)]"
  by (subst digitsOf.simps) simp

section \<open>Properties of the fee\<close>

lemma find_MEMBRESIAS:
  "m \<in> set MEMBRESIAS \<Longrightarrow> find (\<lambda>x. id_m x = id_m m) MEMBRESIAS = Some m"
  by (auto simp: MEMBRESIAS_def)

lemma find_MEMBRESIAS_None:
  "membresiaId \<notin> id_m ` set MEMBRESIAS \<Longrightarrow> find (\<lambda>x. id_m x = membresiaId) MEMBRESIAS = None"
  by (auto simp: MEMBRESIAS_def)

text \<open>
  Claim C1. For every age, every plan of the catalog and every payment method, the fee is
  the plan's price, multiplied by 0.8 when the age is below 18, and the result of that
  multiplied by 1.05 when the payment method is the card one (the string tarjeta). In
  particular a minor paying by card owes price times 0.8 times 1.05, the discount being
  the inner factor; neither condition suppresses the other.
\<close>

theorem calcularImporte_formula:
  "m \<in> set MEMBRESIAS \<Longrightarrow>
     calcularImporte edad' (id_m m) pago =
       (if pago = ''tarjeta''
        then (if lt edad' (Num 18) then precio m * 0.8 else precio m) * 1.05
        else (if lt edad' (Num 18) then precio m * 0.8 else precio m)) \<and>
     (\<forall>a < 18. calcularImporte (Num a) (id_m m) ''tarjeta'' = (precio m * 0.8) * 1.05)"
  using find_MEMBRESIAS [of m] by (simp add: calcularImporte_def)

theorem calcularImporte_formula_witness:
  "\<lparr>id_m = ''BAS'', precio = 12000, nombre_m = ''B'' @ [char_of (225::nat)] @ ''sica''\<rparr>
      \<in> set MEMBRESIAS \<and>
   calcularImporte (Num 17) ''BAS'' ''tarjeta'' = 12000 * 0.8 * 1.05 \<and>
   calcularImporte (Num 17) ''BAS'' ''tarjeta'' = 10080 \<and>
   calcularImporte (Num 30) ''BAS'' ''tarjeta'' = 12600 \<and>
   calcularImporte (Num 17) ''BAS'' ''efectivo'' = 9600 \<and>
   calcularImporte NaN ''BAS'' ''efectivo'' = 12000"
  using calcularImporte_formula
    [of "\<lparr>id_m = ''BAS'', precio = 12000, nombre_m = ''B'' @ [char_of (225::nat)] @ ''sica''\<rparr>"]
  by (simp add: MEMBRESIAS_def)

lemma calcularImporte_tarjeta:
  "calcularImporte e m ''tarjeta'' = calcularImporte e m ''efectivo'' * 1.05"
  by (simp add: calcularImporte_def Let_def)

lemma calcularImporte_other:
  "pago \<noteq> ''tarjeta'' \<Longrightarrow> calcularImporte e m pago = calcularImporte e m ''efectivo''"
  by (simp add: calcularImporte_def Let_def)

lemma calcularImporte_pos:
  "m \<in> id_m ` set MEMBRESIAS \<Longrightarrow> 0 < calcularImporte e m ''efectivo''"
  by (auto simp: calcularImporte_def MEMBRESIAS_def)

text \<open>
  Claim C10. The surcharge of 1.05 is applied exactly when the payment method is the
  string tarjeta: every other string, whatever it is, gives the fee of a cash payment, and
  for a plan of the catalog the fee is the cash fee times 1.05 only for tarjeta. The
  function is defined on every string.
\<close>

theorem surcharge_only_for_tarjeta:
  "(pago \<noteq> ''tarjeta'' \<longrightarrow> calcularImporte e m pago = calcularImporte e m ''efectivo'') \<and>
   calcularImporte e m ''tarjeta'' = calcularImporte e m ''efectivo'' * 1.05 \<and>
   (m \<in> id_m ` set MEMBRESIAS \<longrightarrow>
      (calcularImporte e m pago = calcularImporte e m ''efectivo'' * 1.05) = (pago = ''tarjeta''))"
proof -
  have ne: "calcularImporte e m ''efectivo'' * 1.05 \<noteq> calcularImporte e m ''efectivo''"
    if "m \<in> id_m ` set MEMBRESIAS"
    using calcularImporte_pos [OF that, of e] by simp
  show ?thesis
  proof (cases "pago = ''tarjeta''")
    case True
    then show ?thesis by (simp add: calcularImporte_tarjeta)
  next
    case False
    then show ?thesis
      using ne calcularImporte_other [of pago e m] by (simp add: calcularImporte_tarjeta)
  qed
qed

theorem surcharge_only_for_tarjeta_witness:
  "''card'' \<noteq> ''tarjeta'' \<and> ''TARJETA'' \<noteq> ''tarjeta'' \<and>
   ''BAS'' \<in> id_m ` set MEMBRESIAS \<and>
   calcularImporte (Num 30) ''BAS'' ''card'' = 12000 \<and>
   calcularImporte (Num 30) ''BAS'' ''TARJETA'' = 12000 \<and>
   calcularImporte (Num 30) ''BAS'' ''efectivo'' = 12000 \<and>
   calcularImporte (Num 30) ''BAS'' ''tarjeta'' = 12600"
  using surcharge_only_for_tarjeta [of "''card''" "Num 30" "''BAS''"]
    surcharge_only_for_tarjeta [of "''TARJETA''" "Num 30" "''BAS''"]
  by (simp add: calcularImporte_def MEMBRESIAS_def)

lemma calcularImporte_unknown:
  "m \<notin> id_m ` set MEMBRESIAS \<Longrightarrow> calcularImporte e m pago = 0"
  using find_MEMBRESIAS_None [of m] by (simp add: calcularImporte_def)

text \<open>
  Claim C6. A plan identifier that is not in the catalog gives the price 0 and so the fee
  0, whatever the age and the payment method; the fee is a value in every case, there is
  no error result. Registration does not look at the plan: a request is rejected with a
  given reason under an unknown plan exactly when it is under any other plan, and an
  accepted request with an unknown plan stores a member whose fee is 0.
\<close>

theorem unknown_plan_fee_zero:
  "membresia_f fd \<notin> id_m ` set MEMBRESIAS \<Longrightarrow>
     calcularImporte e (membresia_f fd) pago = 0 \<and>
     (handleRegister u fd socios = Inl r) =
       (handleRegister u (fd\<lparr>membresia_f := m'\<rparr>) socios = Inl r) \<and>
     (\<forall>socios'. handleRegister u fd socios = Inr socios' \<longrightarrow>
        (\<exists>nuevo. socios' = nuevo # socios \<and> membresia nuevo = membresia_f fd \<and> importe nuevo = 0))"
  using calcularImporte_unknown [of "membresia_f fd"]
  by (simp add: handleRegister_cases)

theorem unknown_plan_fee_zero_witness:
  "''ORO'' \<notin> id_m ` set MEMBRESIAS \<and>
   calcularImporte (Num 17) ''ORO'' ''tarjeta'' = 0 \<and>
   handleRegister ''u1''
     \<lparr>nombre_f = ''Ana'', dni_f = ''30000000'', edad_f = ''17'', sede_f = ''CBA'',
      membresia_f = ''ORO'', metodoPago_f = ''tarjeta''\<rparr> [] =
   Inr [\<lparr>id_s = ''u1'', nombre = ''Ana'', dni = Num 30000000, edad = Num 17, sede = ''CBA'',
         membresia = ''ORO'', metodoPago = ''tarjeta'', importe = 0\<rparr>]"
  using unknown_plan_fee_zero
    [of "\<lparr>nombre_f = ''Ana'', dni_f = ''30000000'', edad_f = ''17'', sede_f = ''CBA'',
          membresia_f = ''ORO'', metodoPago_f = ''tarjeta''\<rparr>" "Num 17" "''tarjeta''"]
  by (simp add: handleRegister_cases parseInt_30000000 parseInt_17 MEMBRESIAS_def MAX_SOCIOS_def)

section \<open>Properties of the report\<close>

lemma reduce_importe:
  "foldl (\<lambda>acc s. acc + importe s) a xs = a + sum_list (map importe xs)"
  by (induction xs arbitrary: a) simp_all

lemma sedeBreakdown_stats:
  "sedeBreakdown (stats socios) =
     map (\<lambda>sd. \<lparr>name = sd, count = length (filter (\<lambda>s. sede s = sd) socios),
                 income = sum_list (map importe (filter (\<lambda>s. sede s = sd) socios))\<rparr>) SEDES"
  by (simp add: stats_def Let_def reduce_importe)

lemma filter_sede_empty:
  "sd \<notin> sede ` set socios \<Longrightarrow> filter (\<lambda>s. sede s = sd) socios = []"
  by (induction socios) auto

text \<open>
  Claim C7. For every member list the report gives as total revenue the sum of the members'
  fees, as total count the number of members, and one entry for each location code of the
  catalog, in the catalog's order CBA, ROS, MDP, BUE, holding the number and the summed fees
  of the members of that location; a location without members has count 0 and income 0.
  On the empty list the totals are 0 and the four entries are all 0.
\<close>

theorem stats_summary:
  "totalRecaudado (stats socios) = sum_list (map importe socios) \<and>
   totalSocios (stats socios) = length socios \<and>
   map name (sedeBreakdown (stats socios)) = [''CBA'', ''ROS'', ''MDP'', ''BUE''] \<and>
   sedeBreakdown (stats socios) =
     map (\<lambda>sd. \<lparr>name = sd, count = length (filter (\<lambda>s. sede s = sd) socios),
                 income = sum_list (map importe (filter (\<lambda>s. sede s = sd) socios))\<rparr>) SEDES \<and>
   (\<forall>e \<in> set (sedeBreakdown (stats socios)).
      name e \<notin> sede ` set socios \<longrightarrow> count e = 0 \<and> income e = 0) \<and>
   stats [] = \<lparr>totalRecaudado = 0, totalSocios = 0, sedeBreakdown =
                 [\<lparr>name = ''CBA'', count = 0, income = 0\<rparr>, \<lparr>name = ''ROS'', count = 0, income = 0\<rparr>,
                  \<lparr>name = ''MDP'', count = 0, income = 0\<rparr>, \<lparr>name = ''BUE'', count = 0, income = 0\<rparr>]\<rparr>"
proof -
  have total: "totalRecaudado (stats socios) = sum_list (map importe socios)"
    by (simp add: stats_def Let_def reduce_importe)
  have n: "totalSocios (stats socios) = length socios"
    by (simp add: stats_def Let_def)
  have names: "map name (sedeBreakdown (stats socios)) = [''CBA'', ''ROS'', ''MDP'', ''BUE'']"
    by (simp add: sedeBreakdown_stats SEDES_def)
  have zero: "\<forall>e \<in> set (sedeBreakdown (stats socios)).
      name e \<notin> sede ` set socios \<longrightarrow> count e = 0 \<and> income e = 0"
    unfolding sedeBreakdown_stats by (auto simp: filter_sede_empty)
  have empty: "stats [] = \<lparr>totalRecaudado = 0, totalSocios = 0, sedeBreakdown =
                 [\<lparr>name = ''CBA'', count = 0, income = 0\<rparr>, \<lparr>name = ''ROS'', count = 0, income = 0\<rparr>,
                  \<lparr>name = ''MDP'', count = 0, income = 0\<rparr>, \<lparr>name = ''BUE'', count = 0, income = 0\<rparr>]\<rparr>"
    by (simp add: stats_def SEDES_def)
  from total n names zero empty sedeBreakdown_stats [of socios] show ?thesis by blast
qed

theorem stats_summary_witness:
  "stats [\<lparr>id_s = ''u2'', nombre = ''Luz'', dni = Num 30000000, edad = Num 17, sede = ''ROS'',
           membresia = ''BAS'', metodoPago = ''efectivo'', importe = 9600\<rparr>,
          \<lparr>id_s = ''u1'', nombre = ''Ana'', dni = Num 20000000, edad = Num 40, sede = ''ROS'',
           membresia = ''PRE'', metodoPago = ''efectivo'', importe = 25000\<rparr>] =
   \<lparr>totalRecaudado = 34600, totalSocios = 2, sedeBreakdown =
      [\<lparr>name = ''CBA'', count = 0, income = 0\<rparr>, \<lparr>name = ''ROS'', count = 2, income = 34600\<rparr>,
       \<lparr>name = ''MDP'', count = 0, income = 0\<rparr>, \<lparr>name = ''BUE'', count = 0, income = 0\<rparr>]\<rparr>"
  using stats_summary
    [of "[\<lparr>id_s = ''u2'', nombre = ''Luz'', dni = Num 30000000, edad = Num 17, sede = ''ROS'',
           membresia = ''BAS'', metodoPago = ''efectivo'', importe = 9600\<rparr>,
          \<lparr>id_s = ''u1'', nombre = ''Ana'', dni = Num 20000000, edad = Num 40, sede = ''ROS'',
           membresia = ''PRE'', metodoPago = ''efectivo'', importe = 25000\<rparr>]"]
  by (simp add: stats_def SEDES_def)

section \<open>Properties of removal\<close>

text \<open>
  Claim C9, as stated, asks that removing an identifier that is not in the registry
  returns false. The handler has no boolean result: on the empty registry it returns
  \<^verbatim>\<open>undefined\<close>, which is not false.
\<close>

theorem remove_returns_no_boolean:
  "fst (removeSocio ''u9'' []) = Undefined \<and> fst (removeSocio ''u9'' []) \<noteq> Boolean False"
  by (simp add: removeSocio_def)

lemma filter_absent_id:
  "i \<notin> id_s ` set socios \<Longrightarrow> filter (\<lambda>x. id_s x \<noteq> i) socios = socios"
  by (induction socios) auto

text \<open>
  Claim C9, amended. For every identifier that is not in the registry, removal leaves the
  member sequence exactly as it was, and it cannot fail: it has no error result. Its value
  is \<^verbatim>\<open>undefined\<close>, whether or not a member was removed.
\<close>

theorem remove_absent_id_noop:
  "i \<notin> id_s ` set socios \<Longrightarrow> removeSocio i socios = (Undefined, socios)"
  by (simp add: removeSocio_def filter_absent_id)

theorem remove_absent_id_noop_witness:
  "''u9'' \<notin> id_s ` set [\<lparr>id_s = ''u1'', nombre = ''Ana'', dni = Num 20000000, edad = Num 40,
        sede = ''ROS'', membresia = ''PRE'', metodoPago = ''efectivo'', importe = 25000\<rparr>] \<and>
   removeSocio ''u9'' [\<lparr>id_s = ''u1'', nombre = ''Ana'', dni = Num 20000000, edad = Num 40,
        sede = ''ROS'', membresia = ''PRE'', metodoPago = ''efectivo'', importe = 25000\<rparr>] =
   (Undefined, [\<lparr>id_s = ''u1'', nombre = ''Ana'', dni = Num 20000000, edad = Num 40,
        sede = ''ROS'', membresia = ''PRE'', metodoPago = ''efectivo'', importe = 25000\<rparr>])"
  using remove_absent_id_noop [of "''u9''" "[\<lparr>id_s = ''u1'', nombre = ''Ana'', dni = Num 20000000,
        edad = Num 40, sede = ''ROS'', membresia = ''PRE'', metodoPago = ''efectivo'',
        importe = 25000\<rparr>]"]
  by simp

section \<open>Properties of registration\<close>

text \<open>
  Claim C5. A request whose nationalId field holds the number n is rejected with reason
  InvalidNationalId exactly when n is below 2,000,000 or above 59,999,999, whatever the
  rest of the request and the registry are. At the boundaries, 1,999,999 and 60,000,000
  are rejected with that reason; 2,000,000 and 59,999,999 are not, and are accepted when
  the registry holds fewer than 390 members.
\<close>

theorem dni_range_check:
  "parseInt (dni_f fd) = Num n \<Longrightarrow>
     (handleRegister u fd socios = Inl InvalidNationalId) = (n < 2000000 \<or> 59999999 < n) \<and>
     (n = 1999999 \<or> n = 60000000 \<longrightarrow> handleRegister u fd socios = Inl InvalidNationalId) \<and>
     (n = 2000000 \<or> n = 59999999 \<longrightarrow>
        handleRegister u fd socios \<noteq> Inl InvalidNationalId \<and>
        (length socios < 390 \<longrightarrow>
           (\<exists>nuevo. handleRegister u fd socios = Inr (nuevo # socios) \<and> dni nuevo = Num n)))"
  by (auto simp: handleRegister_cases MAX_SOCIOS_def)

theorem dni_range_check_witness:
  "handleRegister ''u1'' \<lparr>nombre_f = ''Ana'', dni_f = ''1999999'', edad_f = ''25'', sede_f = ''CBA'',
      membresia_f = ''BAS'', metodoPago_f = ''efectivo''\<rparr> [] = Inl InvalidNationalId \<and>
   handleRegister ''u1'' \<lparr>nombre_f = ''Ana'', dni_f = ''2000000'', edad_f = ''25'', sede_f = ''CBA'',
      membresia_f = ''BAS'', metodoPago_f = ''efectivo''\<rparr> [] =
     Inr [\<lparr>id_s = ''u1'', nombre = ''Ana'', dni = Num 2000000, edad = Num 25, sede = ''CBA'',
           membresia = ''BAS'', metodoPago = ''efectivo'', importe = 12000\<rparr>] \<and>
   handleRegister ''u1'' \<lparr>nombre_f = ''Ana'', dni_f = ''59999999'', edad_f = ''25'', sede_f = ''CBA'',
      membresia_f = ''BAS'', metodoPago_f = ''efectivo''\<rparr> [] =
     Inr [\<lparr>id_s = ''u1'', nombre = ''Ana'', dni = Num 59999999, edad = Num 25, sede = ''CBA'',
           membresia = ''BAS'', metodoPago = ''efectivo'', importe = 12000\<rparr>] \<and>
   handleRegister ''u1'' \<lparr>nombre_f = ''Ana'', dni_f = ''60000000'', edad_f = ''25'', sede_f = ''CBA'',
      membresia_f = ''BAS'', metodoPago_f = ''efectivo''\<rparr> [] = Inl InvalidNationalId"
  using
    dni_range_check [of "\<lparr>nombre_f = ''Ana'', dni_f = ''1999999'', edad_f = ''25'', sede_f = ''CBA'',
      membresia_f = ''BAS'', metodoPago_f = ''efectivo''\<rparr>" 1999999 "''u1''" "[]"]
    dni_range_check [of "\<lparr>nombre_f = ''Ana'', dni_f = ''2000000'', edad_f = ''25'', sede_f = ''CBA'',
      membresia_f = ''BAS'', metodoPago_f = ''efectivo''\<rparr>" 2000000 "''u1''" "[]"]
    dni_range_check [of "\<lparr>nombre_f = ''Ana'', dni_f = ''59999999'', edad_f = ''25'', sede_f = ''CBA'',
      membresia_f = ''BAS'', metodoPago_f = ''efectivo''\<rparr>" 59999999 "''u1''" "[]"]
    dni_range_check [of "\<lparr>nombre_f = ''Ana'', dni_f = ''60000000'', edad_f = ''25'', sede_f = ''CBA'',
      membresia_f = ''BAS'', metodoPago_f = ''efectivo''\<rparr>" 60000000 "''u1''" "[]"]
  by (simp add: parseInt_1999999 parseInt_2000000 parseInt_59999999 parseInt_60000000
      parseInt_25 handleRegister_cases MAX_SOCIOS_def calcularImporte_def MEMBRESIAS_def)

text \<open>
  Claim C4, as stated, has a first check that rejects an empty fullName with reason
  MissingRequiredField. The handler has no such check: a request with an empty name and a
  valid nationalId is accepted on the empty registry, and the member is stored with the
  empty name.
\<close>

theorem empty_name_is_registered:
  "handleRegister ''u1'' \<lparr>nombre_f = '''', dni_f = ''30000000'', edad_f = ''25'', sede_f = ''CBA'',
      membresia_f = ''BAS'', metodoPago_f = ''efectivo''\<rparr> [] =
     Inr [\<lparr>id_s = ''u1'', nombre = '''', dni = Num 30000000, edad = Num 25, sede = ''CBA'',
           membresia = ''BAS'', metodoPago = ''efectivo'', importe = 12000\<rparr>]"
  by (simp add: parseInt_30000000 parseInt_25 handleRegister_cases MAX_SOCIOS_def
      calcularImporte_def MEMBRESIAS_def)

text \<open>
  Claim C4, amended. For a request whose nationalId field holds a number, the handler makes
  two checks, in this order, and stops at the first that fails: the nationalId range,
  rejecting with InvalidNationalId, then the capacity, rejecting with CapacityExceeded. So
  a nationalId out of range is rejected with InvalidNationalId also when the registry is
  full. A request that passes both is accepted and stored with the name and the age it
  came with: the handler does not check that the required fields are present (the form
  marks its inputs as required, which is outside the handler).
\<close>

theorem checks_in_order:
  "parseInt (dni_f fd) = Num n \<Longrightarrow>
     (n < 2000000 \<or> 59999999 < n \<longrightarrow> handleRegister u fd socios = Inl InvalidNationalId) \<and>
     (2000000 \<le> n \<and> n \<le> 59999999 \<and> 390 \<le> length socios \<longrightarrow>
        handleRegister u fd socios = Inl CapacityExceeded) \<and>
     (2000000 \<le> n \<and> n \<le> 59999999 \<and> length socios < 390 \<longrightarrow>
        (\<exists>nuevo. handleRegister u fd socios = Inr (nuevo # socios) \<and>
           nombre nuevo = nombre_f fd \<and> dni nuevo = Num n \<and> edad nuevo = parseInt (edad_f fd)))"
  by (auto simp: handleRegister_cases MAX_SOCIOS_def)

theorem checks_in_order_witness:
  "handleRegister ''u1'' \<lparr>nombre_f = ''Ana'', dni_f = ''1999999'', edad_f = ''25'', sede_f = ''CBA'',
      membresia_f = ''BAS'', metodoPago_f = ''efectivo''\<rparr>
      (replicate 390 \<lparr>id_s = ''u0'', nombre = ''Luz'', dni = Num 30000000, edad = Num 25,
         sede = ''CBA'', membresia = ''BAS'', metodoPago = ''efectivo'', importe = 12000\<rparr>)
     = Inl InvalidNationalId \<and>
   handleRegister ''u1'' \<lparr>nombre_f = ''Ana'', dni_f = ''30000000'', edad_f = ''25'', sede_f = ''CBA'',
      membresia_f = ''BAS'', metodoPago_f = ''efectivo''\<rparr>
      (replicate 390 \<lparr>id_s = ''u0'', nombre = ''Luz'', dni = Num 30000000, edad = Num 25,
         sede = ''CBA'', membresia = ''BAS'', metodoPago = ''efectivo'', importe = 12000\<rparr>)
     = Inl CapacityExceeded \<and>
   handleRegister ''u1'' \<lparr>nombre_f = ''Ana'', dni_f = ''30000000'', edad_f = ''17'',
      sede_f = ''MDP'', membresia_f = ''STD'', metodoPago_f = ''tarjeta''\<rparr> []
     = Inr [\<lparr>id_s = ''u1'', nombre = ''Ana'', dni = Num 30000000, edad = Num 17, sede = ''MDP'',
           membresia = ''STD'', metodoPago = ''tarjeta'', importe = 15120\<rparr>]"
  using
    checks_in_order [of "\<lparr>nombre_f = ''Ana'', dni_f = ''1999999'', edad_f = ''25'', sede_f = ''CBA'',
      membresia_f = ''BAS'', metodoPago_f = ''efectivo''\<rparr>" 1999999 "''u1''"
      "replicate 390 \<lparr>id_s = ''u0'', nombre = ''Luz'', dni = Num 30000000, edad = Num 25,
         sede = ''CBA'', membresia = ''BAS'', metodoPago = ''efectivo'', importe = 12000\<rparr>"]
    checks_in_order [of "\<lparr>nombre_f = ''Ana'', dni_f = ''30000000'', edad_f = ''25'', sede_f = ''CBA'',
      membresia_f = ''BAS'', metodoPago_f = ''efectivo''\<rparr>" 30000000 "''u1''"
      "replicate 390 \<lparr>id_s = ''u0'', nombre = ''Luz'', dni = Num 30000000, edad = Num 25,
         sede = ''CBA'', membresia = ''BAS'', metodoPago = ''efectivo'', importe = 12000\<rparr>"]
    checks_in_order [of "\<lparr>nombre_f = ''Ana'', dni_f = ''30000000'', edad_f = ''17'', sede_f = ''MDP'',
      membresia_f = ''STD'', metodoPago_f = ''tarjeta''\<rparr>" 30000000 "''u1''" "[]"]
  by (simp add: parseInt_1999999 parseInt_30000000 parseInt_17 handleRegister_cases
      MAX_SOCIOS_def calcularImporte_def MEMBRESIAS_def)

section \<open>Properties of the registry\<close>

lemma handleRegister_full:
  "390 \<le> length socios \<Longrightarrow>
     handleRegister u fd socios = Inl InvalidNationalId \<or>
     handleRegister u fd socios = Inl CapacityExceeded"
  by (simp add: handleRegister_cases MAX_SOCIOS_def)

lemma handleRegister_inRange:
  "inRange (parseInt (dni_f fd)) \<Longrightarrow> handleRegister u fd socios \<noteq> Inl InvalidNationalId"
  by (cases "parseInt (dni_f fd)") (simp_all add: handleRegister_cases)

lemma handleRegister_accepts:
  "inRange (parseInt (dni_f fd)) \<Longrightarrow> length socios < 390 \<Longrightarrow>
     \<exists>nuevo. handleRegister u fd socios = Inr (nuevo # socios)"
  by (cases "parseInt (dni_f fd)") (simp_all add: handleRegister_cases MAX_SOCIOS_def)

lemma length_sociosAfterRegister:
  "length socios \<le> 390 \<Longrightarrow> length (sociosAfterRegister u fd socios) \<le> 390"
  by (simp add: sociosAfterRegister_def handleRegister_cases MAX_SOCIOS_def)

lemma length_remove_present:
  "distinct (map id_s socios) \<Longrightarrow> x \<in> set socios \<Longrightarrow>
     Suc (length (filter (\<lambda>y. id_s y \<noteq> id_s x) socios)) = length socios"
proof (induction socios)
  case Nil
  then show ?case by simp
next
  case (Cons a socios)
  show ?case
  proof (cases "id_s a = id_s x")
    case True
    with Cons.prems have "id_s x \<notin> id_s ` set socios" by auto
    then have "filter (\<lambda>y. id_s y \<noteq> id_s x) socios = socios"
      by (induction socios) auto
    with True show ?thesis by simp
  next
    case False
    with Cons show ?thesis by auto
  qed
qed

text \<open>
  Claim C2. When the registry holds exactly 390 members, the next registration request is
  rejected and the registry stays as it is; the reason is CapacityExceeded for every
  request that the nationalId check, which comes first, does not reject, in particular for
  every request with a nationalId in range. After one member of a registry of 390 members
  with distinct identifiers is removed, 389 are left, one registration succeeds, and the
  one after it is rejected with CapacityExceeded. A registry of at most 390 members has at
  most 390 after any registration request.
\<close>

theorem capacity_limit:
  "(length socios \<le> 390 \<longrightarrow> length (sociosAfterRegister u fd socios) \<le> 390) \<and>
   (length socios = 390 \<longrightarrow>
      sociosAfterRegister u fd socios = socios \<and>
      (handleRegister u fd socios \<noteq> Inl InvalidNationalId \<longrightarrow>
         handleRegister u fd socios = Inl CapacityExceeded) \<and>
      (inRange (parseInt (dni_f fd)) \<longrightarrow> handleRegister u fd socios = Inl CapacityExceeded)) \<and>
   (length socios = 390 \<and> distinct (map id_s socios) \<and> x \<in> set socios \<and>
    inRange (parseInt (dni_f fd1)) \<and> inRange (parseInt (dni_f fd2)) \<longrightarrow>
      length (snd (removeSocio (id_s x) socios)) = 389 \<and>
      (\<exists>nuevo. handleRegister u1 fd1 (snd (removeSocio (id_s x) socios)) =
                 Inr (nuevo # snd (removeSocio (id_s x) socios)) \<and>
               handleRegister u2 fd2 (nuevo # snd (removeSocio (id_s x) socios)) =
                 Inl CapacityExceeded))"
proof (intro conjI impI)
  assume "length socios \<le> 390"
  then show "length (sociosAfterRegister u fd socios) \<le> 390"
    by (rule length_sociosAfterRegister)
next
  assume full: "length socios = 390"
  from handleRegister_full [of socios u fd] full
  show "sociosAfterRegister u fd socios = socios"
    by (auto simp: sociosAfterRegister_def)
  from handleRegister_full [of socios u fd] full
  show "handleRegister u fd socios = Inl CapacityExceeded"
    if "handleRegister u fd socios \<noteq> Inl InvalidNationalId"
    using that by auto
  from handleRegister_full [of socios u fd] full handleRegister_inRange [of fd u socios]
  show "handleRegister u fd socios = Inl CapacityExceeded"
    if "inRange (parseInt (dni_f fd))"
    using that by auto
next
  assume a: "length socios = 390 \<and> distinct (map id_s socios) \<and> x \<in> set socios \<and>
    inRange (parseInt (dni_f fd1)) \<and> inRange (parseInt (dni_f fd2))"
  let ?s1 = "snd (removeSocio (id_s x) socios)"
  from a length_remove_present [of socios x] show len: "length ?s1 = 389"
    by (simp add: removeSocio_def)
  from a len handleRegister_accepts [of fd1 ?s1 u1]
  obtain nuevo where n: "handleRegister u1 fd1 ?s1 = Inr (nuevo # ?s1)" by auto
  from len have "390 \<le> length (nuevo # ?s1)" by simp
  from handleRegister_full [OF this, of u2 fd2] a handleRegister_inRange [of fd2 u2 "nuevo # ?s1"]
  have "handleRegister u2 fd2 (nuevo # ?s1) = Inl CapacityExceeded" by auto
  with n show "\<exists>nuevo. handleRegister u1 fd1 ?s1 = Inr (nuevo # ?s1) \<and>
               handleRegister u2 fd2 (nuevo # ?s1) = Inl CapacityExceeded" by blast
qed

theorem capacity_limit_witness:
  "length (map (\<lambda>k. \<lparr>id_s = replicate k CHR ''x'', nombre = ''Luz'', dni = Num 30000000,
        edad = Num 25, sede = ''CBA'', membresia = ''BAS'', metodoPago = ''efectivo'',
        importe = 12000\<rparr>) [0..<390]) = 390 \<and>
   handleRegister ''u1''
     \<lparr>nombre_f = ''Ana'', dni_f = ''30000000'', edad_f = ''25'', sede_f = ''CBA'',
      membresia_f = ''BAS'', metodoPago_f = ''efectivo''\<rparr>
     (map (\<lambda>k. \<lparr>id_s = replicate k CHR ''x'', nombre = ''Luz'', dni = Num 30000000,
        edad = Num 25, sede = ''CBA'', membresia = ''BAS'', metodoPago = ''efectivo'',
        importe = 12000\<rparr>) [0..<390]) = Inl CapacityExceeded \<and>
   length (snd (removeSocio ''xxx''
     (map (\<lambda>k. \<lparr>id_s = replicate k CHR ''x'', nombre = ''Luz'', dni = Num 30000000,
        edad = Num 25, sede = ''CBA'', membresia = ''BAS'', metodoPago = ''efectivo'',
        importe = 12000\<rparr>) [0..<390]))) = 389 \<and>
   (\<exists>nuevo. handleRegister ''u2''
       \<lparr>nombre_f = ''Ana'', dni_f = ''30000000'', edad_f = ''25'', sede_f = ''CBA'',
        membresia_f = ''BAS'', metodoPago_f = ''efectivo''\<rparr>
       (snd (removeSocio ''xxx''
         (map (\<lambda>k. \<lparr>id_s = replicate k CHR ''x'', nombre = ''Luz'', dni = Num 30000000,
            edad = Num 25, sede = ''CBA'', membresia = ''BAS'', metodoPago = ''efectivo'',
            importe = 12000\<rparr>) [0..<390]))) =
       Inr (nuevo # snd (removeSocio ''xxx''
         (map (\<lambda>k. \<lparr>id_s = replicate k CHR ''x'', nombre = ''Luz'', dni = Num 30000000,
            edad = Num 25, sede = ''CBA'', membresia = ''BAS'', metodoPago = ''efectivo'',
            importe = 12000\<rparr>) [0..<390]))) \<and>
     handleRegister ''u3''
       \<lparr>nombre_f = ''Ana'', dni_f = ''30000000'', edad_f = ''25'', sede_f = ''CBA'',
        membresia_f = ''BAS'', metodoPago_f = ''efectivo''\<rparr>
       (nuevo # snd (removeSocio ''xxx''
         (map (\<lambda>k. \<lparr>id_s = replicate k CHR ''x'', nombre = ''Luz'', dni = Num 30000000,
            edad = Num 25, sede = ''CBA'', membresia = ''BAS'', metodoPago = ''efectivo'',
            importe = 12000\<rparr>) [0..<390]))) = Inl CapacityExceeded)"
proof -
  let ?m = "\<lambda>k. \<lparr>id_s = replicate k CHR ''x'', nombre = ''Luz'', dni = Num 30000000,
        edad = Num 25, sede = ''CBA'', membresia = ''BAS'', metodoPago = ''efectivo'',
        importe = 12000\<rparr>"
  let ?R = "map ?m [0..<390]"
  let ?fd = "\<lparr>nombre_f = ''Ana'', dni_f = ''30000000'', edad_f = ''25'', sede_f = ''CBA'',
      membresia_f = ''BAS'', metodoPago_f = ''efectivo''\<rparr>"
  have len: "length ?R = 390" by simp
  have "inj_on (\<lambda>k. replicate k CHR ''x'') {0..<390}"
    by (rule inj_onI) (drule arg_cong [where f = length], simp)
  then have dist: "distinct (map id_s ?R)"
    by (simp add: distinct_map o_def)
  have mem: "?m 3 \<in> set ?R" by simp
  have ok: "inRange (parseInt (dni_f ?fd))" by (simp add: parseInt_30000000)
  have id3: "id_s (?m 3) = ''xxx''" by (simp add: numeral_3_eq_3)
  from capacity_limit [of ?R "''u1''" ?fd "?m 3" ?fd ?fd "''u2''" "''u3''"] len dist mem ok
  have "handleRegister ''u1'' ?fd ?R = Inl CapacityExceeded \<and>
        length (snd (removeSocio (id_s (?m 3)) ?R)) = 389 \<and>
        (\<exists>nuevo. handleRegister ''u2'' ?fd (snd (removeSocio (id_s (?m 3)) ?R)) =
                   Inr (nuevo # snd (removeSocio (id_s (?m 3)) ?R)) \<and>
                 handleRegister ''u3'' ?fd (nuevo # snd (removeSocio (id_s (?m 3)) ?R)) =
                   Inl CapacityExceeded)"
    by blast
  with len show ?thesis unfolding id3 by blast
qed

lemma step_inRange:
  assumes "\<forall>s \<in> set socios. inRange (dni s)" and "checkedInput op"
  shows "\<forall>s \<in> set (step socios op). inRange (dni s)"
proof (cases op)
  case (Hydrate saved)
  with assms show ?thesis by (cases saved) (simp_all add: list_all_iff)
next
  case (Register u fd)
  with assms obtain n where "parseInt (dni_f fd) = Num n"
    by (cases "parseInt (dni_f fd)") simp_all
  with assms Register show ?thesis
    by (auto simp: sociosAfterRegister_def handleRegister_cases)
next
  case (Remove i)
  with assms show ?thesis by (simp add: removeSocio_def)
qed

lemma run_inRange:
  "\<forall>s \<in> set socios. inRange (dni s) \<Longrightarrow> \<forall>op \<in> set ops. checkedInput op \<Longrightarrow>
     \<forall>s \<in> set (run ops socios). inRange (dni s)"
  unfolding run_def
proof (induction ops arbitrary: socios)
  case Nil
  then show ?case by simp
next
  case (Cons op ops)
  from Cons.prems have "\<forall>s \<in> set (step socios op). inRange (dni s)"
    using step_inRange [of socios op] by simp
  with Cons show ?case by simp
qed

text \<open>
  Claim C3, as stated, covers every sequence of operations and every input. Loading a
  snapshot installs it without looking at it: after loading a snapshot whose only member
  has nationalId 1, that member is in the registry.
\<close>

theorem hydrate_does_not_validate:
  "run [Hydrate (Some [\<lparr>id_s = ''u1'', nombre = ''Ana'', dni = Num 1, edad = Num 40,
          sede = ''ROS'', membresia = ''PRE'', metodoPago = ''efectivo'', importe = 25000\<rparr>])] [] =
     [\<lparr>id_s = ''u1'', nombre = ''Ana'', dni = Num 1, edad = Num 40,
          sede = ''ROS'', membresia = ''PRE'', metodoPago = ''efectivo'', importe = 25000\<rparr>] \<and>
   \<not> inRange (Num 1)"
  by (simp add: run_def)

text \<open>
  Claim C3, amended. Starting from a registry whose members all have a nationalId from
  2,000,000 to 59,999,999 (the empty one, for instance), after any sequence of
  registrations whose nationalId field holds a number, of removals, and of loads whose
  snapshot has only members in that range, every stored member has a nationalId in that
  range. A load performs no validation: what follows it runs on the snapshot as it is.
\<close>

theorem dni_invariant:
  "(\<forall>s \<in> set socios. inRange (dni s)) \<Longrightarrow> (\<forall>op \<in> set ops. checkedInput op) \<Longrightarrow>
     (\<forall>s \<in> set (run ops socios). inRange (dni s)) \<and>
     run (Hydrate (Some saved) # ops') socios = run ops' saved"
  using run_inRange [of socios ops] by (simp add: run_def)

theorem dni_invariant_witness:
  "run [Register ''u1'' \<lparr>nombre_f = ''Ana'', dni_f = ''30000000'', edad_f = ''25'', sede_f = ''CBA'',
          membresia_f = ''BAS'', metodoPago_f = ''efectivo''\<rparr>,
        Register ''u2'' \<lparr>nombre_f = ''Luz'', dni_f = ''1999999'', edad_f = ''25'', sede_f = ''CBA'',
          membresia_f = ''BAS'', metodoPago_f = ''efectivo''\<rparr>,
        Remove ''u7'', Hydrate None] [] =
     [\<lparr>id_s = ''u1'', nombre = ''Ana'', dni = Num 30000000, edad = Num 25, sede = ''CBA'',
       membresia = ''BAS'', metodoPago = ''efectivo'', importe = 12000\<rparr>] \<and>
   inRange (Num 30000000)"
  using dni_invariant [of "[]"
      "[Register ''u1'' \<lparr>nombre_f = ''Ana'', dni_f = ''30000000'', edad_f = ''25'', sede_f = ''CBA'',
          membresia_f = ''BAS'', metodoPago_f = ''efectivo''\<rparr>,
        Register ''u2'' \<lparr>nombre_f = ''Luz'', dni_f = ''1999999'', edad_f = ''25'', sede_f = ''CBA'',
          membresia_f = ''BAS'', metodoPago_f = ''efectivo''\<rparr>,
        Remove ''u7'', Hydrate None]"]
  by (simp add: run_def sociosAfterRegister_def handleRegister_cases removeSocio_def
      parseInt_30000000 parseInt_1999999 parseInt_25 MAX_SOCIOS_def calcularImporte_def
      MEMBRESIAS_def)

section \<open>Properties of the search\<close>

lemma startsWith_prefix: "startsWith s q = prefix q s"
  by (induction s q rule: startsWith.induct) auto

lemma includes_str_sublist: "includes_str s q = sublist q s"
  by (induction s) (simp_all add: startsWith_prefix sublist_Cons_right)

lemma lowerChar_plain: "plainChar c \<Longrightarrow> lowerChar c = c"
  by (auto simp: plainChar_def lowerChar_def Let_def)

lemma plain_lowerChar: "plainChar (lowerChar c) \<Longrightarrow> lowerChar c = c"
  by (auto simp: plainChar_def lowerChar_def Let_def split: if_splits)

lemma plain_digitsOf: "c \<in> set (digitsOf n) \<Longrightarrow> plainChar c"
proof (induction n rule: digitsOf.induct)
  case (1 n)
  show ?case
  proof (cases "n < 10")
    case True
    with "1.prems" show ?thesis
      by (subst (asm) digitsOf.simps) (auto simp: plainChar_def)
  next
    case False
    with "1.prems" have "c \<in> set (digitsOf (n div 10)) \<or> c = char_of (48 + n mod 10)"
      by (subst (asm) digitsOf.simps) auto
    then show ?thesis
    proof
      assume "c \<in> set (digitsOf (n div 10))"
      with False "1.IH" show ?thesis by simp
    next
      assume "c = char_of (48 + n mod 10)"
      moreover have "n mod 10 < 10" by simp
      ultimately show ?thesis by (auto simp: plainChar_def)
    qed
  qed
qed

lemma plain_toString: "c \<in> set (toString (Num n)) \<Longrightarrow> plainChar c"
  by (auto simp: plainChar_def dest: plain_digitsOf split: if_splits)

lemma toLowerCase_plain: "\<forall>c \<in> set d. plainChar c \<Longrightarrow> toLowerCase d = d"
  by (induction d) (simp_all add: toLowerCase_def lowerChar_plain)

lemma toLowerCase_into_plain:
  "\<forall>c \<in> set (toLowerCase q). plainChar c \<Longrightarrow> toLowerCase q = q"
proof -
  assume a: "\<forall>c \<in> set (toLowerCase q). plainChar c"
  have "lowerChar c = c" if "c \<in> set q" for c
    using a that by (intro plain_lowerChar) (simp add: toLowerCase_def)
  then show ?thesis
    unfolding toLowerCase_def by (intro map_idI)
qed

lemma sublist_plain:
  assumes "\<forall>c \<in> set d. plainChar c"
  shows "sublist (toLowerCase q) (toLowerCase d) = sublist q d"
proof -
  have d: "toLowerCase d = d" using assms by (rule toLowerCase_plain)
  show ?thesis
  proof
    assume s: "sublist (toLowerCase q) (toLowerCase d)"
    then have "set (toLowerCase q) \<subseteq> set d" unfolding d by (rule set_mono_sublist)
    with assms have "toLowerCase q = q" by (intro toLowerCase_into_plain) auto
    with s d show "sublist q d" by simp
  next
    assume s: "sublist q d"
    then have "set q \<subseteq> set d" by (rule set_mono_sublist)
    with assms have "toLowerCase q = q" by (intro toLowerCase_plain) auto
    with s d show "sublist (toLowerCase q) (toLowerCase d)" by simp
  qed
qed

lemma spec_matches_filter:
  assumes "isSafeInteger (dni s)"
  shows "spec_matches q s =
    (includes_str (toLowerCase (nombre s)) (toLowerCase q) \<or> includes_str (toString (dni s)) q)"
proof -
  from assms obtain n where n: "dni s = Num n" by (cases "dni s") simp_all
  have "\<forall>c \<in> set (toString (Num n)). plainChar c" using plain_toString by blast
  then have "sublist (toLowerCase q) (toLowerCase (toString (Num n))) = sublist q (toString (Num n))"
    by (rule sublist_plain)
  with n show ?thesis
    by (simp add: spec_matches_def spec_caseInsensitiveSubstring_def includes_str_sublist)
qed

text \<open>
  Claim C8. For every list of members whose national identity numbers are integers (safe
  integers, where the decimal form is what JavaScript prints) and every query, the search
  returns exactly the members for which the query, case set aside, is a substring of the
  full name or of the decimal form of the national identity number, in the order of the
  registry. The empty query returns the whole registry, for every list.
\<close>

theorem filteredSocios_matches:
  "((\<forall>s \<in> set socios. isSafeInteger (dni s)) \<longrightarrow>
      filteredSocios socios q = filter (spec_matches q) socios) \<and>
   filteredSocios socios '''' = socios"
proof
  show "(\<forall>s \<in> set socios. isSafeInteger (dni s)) \<longrightarrow>
      filteredSocios socios q = filter (spec_matches q) socios"
    unfolding filteredSocios_def by (auto intro!: filter_cong simp: spec_matches_filter)
  show "filteredSocios socios '''' = socios"
    by (simp add: filteredSocios_def includes_str_sublist toLowerCase_def)
qed

lemma search_by_name:
  "filteredSocios
     [\<lparr>id_s = ''u2'', nombre = ''Marcelo Sosa'', dni = Num 30111222, edad = Num 17, sede = ''ROS'',
       membresia = ''BAS'', metodoPago = ''efectivo'', importe = 9600\<rparr>,
      \<lparr>id_s = ''u1'', nombre = ''Ana Paz'', dni = Num 25000111, edad = Num 40, sede = ''CBA'',
       membresia = ''PRE'', metodoPago = ''efectivo'', importe = 25000\<rparr>] ''SOSA'' =
     [\<lparr>id_s = ''u2'', nombre = ''Marcelo Sosa'', dni = Num 30111222, edad = Num 17, sede = ''ROS'',
       membresia = ''BAS'', metodoPago = ''efectivo'', importe = 9600\<rparr>]"
  by (simp add: filteredSocios_def toLowerCase_def lowerChar_def char_of_def bit_Suc_0_iff
      digitsOf_small digitsOf_large)

lemma search_by_dni:
  "filteredSocios
     [\<lparr>id_s = ''u2'', nombre = ''Marcelo Sosa'', dni = Num 30111222, edad = Num 17, sede = ''ROS'',
       membresia = ''BAS'', metodoPago = ''efectivo'', importe = 9600\<rparr>,
      \<lparr>id_s = ''u1'', nombre = ''Ana Paz'', dni = Num 25000111, edad = Num 40, sede = ''CBA'',
       membresia = ''PRE'', metodoPago = ''efectivo'', importe = 25000\<rparr>] ''5000'' =
     [\<lparr>id_s = ''u1'', nombre = ''Ana Paz'', dni = Num 25000111, edad = Num 40, sede = ''CBA'',
       membresia = ''PRE'', metodoPago = ''efectivo'', importe = 25000\<rparr>]"
  by (simp add: filteredSocios_def toLowerCase_def lowerChar_def char_of_def bit_Suc_0_iff
      digitsOf_small digitsOf_large)

theorem filteredSocios_matches_witness:
  "isSafeInteger (Num 30111222) \<and> isSafeInteger (Num 25000111) \<and>
   filter (spec_matches ''SOSA'')
     [\<lparr>id_s = ''u2'', nombre = ''Marcelo Sosa'', dni = Num 30111222, edad = Num 17, sede = ''ROS'',
       membresia = ''BAS'', metodoPago = ''efectivo'', importe = 9600\<rparr>,
      \<lparr>id_s = ''u1'', nombre = ''Ana Paz'', dni = Num 25000111, edad = Num 40, sede = ''CBA'',
       membresia = ''PRE'', metodoPago = ''efectivo'', importe = 25000\<rparr>] =
     [\<lparr>id_s = ''u2'', nombre = ''Marcelo Sosa'', dni = Num 30111222, edad = Num 17, sede = ''ROS'',
       membresia = ''BAS'', metodoPago = ''efectivo'', importe = 9600\<rparr>] \<and>
   filter (spec_matches ''5000'')
     [\<lparr>id_s = ''u2'', nombre = ''Marcelo Sosa'', dni = Num 30111222, edad = Num 17, sede = ''ROS'',
       membresia = ''BAS'', metodoPago = ''efectivo'', importe = 9600\<rparr>,
      \<lparr>id_s = ''u1'', nombre = ''Ana Paz'', dni = Num 25000111, edad = Num 40, sede = ''CBA'',
       membresia = ''PRE'', metodoPago = ''efectivo'', importe = 25000\<rparr>] =
     [\<lparr>id_s = ''u1'', nombre = ''Ana Paz'', dni = Num 25000111, edad = Num 40, sede = ''CBA'',
       membresia = ''PRE'', metodoPago = ''efectivo'', importe = 25000\<rparr>]"
proof -
  let ?socios = "[\<lparr>id_s = ''u2'', nombre = ''Marcelo Sosa'', dni = Num 30111222, edad = Num 17,
        sede = ''ROS'', membresia = ''BAS'', metodoPago = ''efectivo'', importe = 9600\<rparr>,
      \<lparr>id_s = ''u1'', nombre = ''Ana Paz'', dni = Num 25000111, edad = Num 40, sede = ''CBA'',
       membresia = ''PRE'', metodoPago = ''efectivo'', importe = 25000\<rparr>]"
  have safe: "\<forall>s \<in> set ?socios. isSafeInteger (dni s)" by simp
  from filteredSocios_matches [of ?socios "''SOSA''"] safe search_by_name
  have a: "filter (spec_matches ''SOSA'') ?socios = [hd ?socios]" by simp
  from filteredSocios_matches [of ?socios "''5000''"] safe search_by_dni
  have b: "filter (spec_matches ''5000'') ?socios = [last ?socios]" by simp
  from safe a b show ?thesis by simp
qed

end
